theory Spec2Isabelle
  imports Main "HOL-Library.Sublist" "HOL-Library.Product_Lexorder"
begin

section \<open>JavaScript values\<close>

text \<open>
  The values that cross the WebSocket and the React state of the front end. An object is
  an association list of its own properties; \<open>JSON.parse\<close> yields objects whose keys are
  distinct, so the first binding of a key is the only one. Numbers are kept to the
  integers: no number is computed with below, only passed on and tested for truth.
\<close>

datatype js_value =
    JUndefined
  | JNull
  | JBool bool
  | JNum int
  | JStr string
  | JArr "js_value list"
  | JObj "(string \<times> js_value) list"

text \<open>\<open>!!v\<close>: the truthiness of a value.\<close>

fun truthy :: "js_value \<Rightarrow> bool" where
  "truthy JUndefined = False"
| "truthy JNull = False"
| "truthy (JBool b) = b"
| "truthy (JNum n) = (n \<noteq> 0)"
| "truthy (JStr s) = (s \<noteq> [])"
| "truthy (JArr vs) = True"
| "truthy (JObj fs) = True"

text \<open>
  \<open>v.k\<close> on a value that is neither \<open>null\<close> nor \<open>undefined\<close>: a missing property reads
  as \<open>undefined\<close>. (On \<open>null\<close> and \<open>undefined\<close> the access throws; the callers below test
  for that first. The names read below, \<open>type\<close>, \<open>message\<close>, \<open>is_typing\<close> and \<open>user_name\<close>,
  are properties of no string, number, boolean or array.)
\<close>

fun js_get :: "js_value \<Rightarrow> string \<Rightarrow> js_value" where
  "js_get (JObj fs) k = (case map_of fs k of None \<Rightarrow> JUndefined | Some v \<Rightarrow> v)"
| "js_get v k = JUndefined"

datatype js_error = TypeError | SyntaxError

text \<open>
  \<open>String(v)\<close>, as a template literal \<open>`${v}`\<close> applies it: the decimal digits of a number,
  the elements of an array joined by commas (with \<open>null\<close> and \<open>undefined\<close> left empty).
\<close>

fun digits :: "nat \<Rightarrow> string" where
  "digits n =
     (if n < 10 then [char_of (48 + n)] else digits (n div 10) @ [char_of (48 + n mod 10)])"

declare digits.simps [simp del]

fun join_comma :: "string list \<Rightarrow> string" where
  "join_comma [] = []"
| "join_comma [s] = s"
| "join_comma (s # t # ss) = s @ CHR '','' # join_comma (t # ss)"

fun to_string :: "js_value \<Rightarrow> string" where
  "to_string JUndefined = ''undefined''"
| "to_string JNull = ''null''"
| "to_string (JBool b) = (if b then ''true'' else ''false'')"
| "to_string (JNum n) = (if n < 0 then CHR ''-'' # digits (nat (- n)) else digits (nat n))"
| "to_string (JStr s) = s"
| "to_string (JArr vs) =
     join_comma (map (\<lambda>v. if v = JNull \<or> v = JUndefined then [] else to_string v) vs)"
| "to_string (JObj fs) = ''[object Object]''"

text \<open>
  What a call does to the outside world, in order: a socket constructed for a URL, a
  frame handed to \<open>socket.send\<close> (the object given to \<open>JSON.stringify\<close>, whose text is
  the frame), a socket closed, a console line, an exception that nothing catches.
\<close>

datatype effect =
    SocketNew string
  | SocketSend js_value
  | SocketClose
  | ConsoleLog string
  | ConsoleError string
  | Uncaught js_error

section \<open>services/websocket.js: WebSocketService\<close>

datatype ready_state = CONNECTING | OPEN | CLOSING | CLOSED

record web_socket =
  url :: string
  readyState :: ready_state

type_synonym conv_id = string

text \<open>
  The fields of the class. A handler is a function reference: \<open>'h\<close> is the type of
  references, compared by identity as \<open>!==\<close> does.
\<close>

record 'h WebSocketService =
  socket :: "web_socket option"
  conversationId :: js_value
  messageHandlers :: "'h list"
  typingHandlers :: "'h list"
  connectionHandlers :: "'h list"
  errorHandlers :: "'h list"

definition constructor :: "'h WebSocketService" where
  "constructor =
     \<lparr>socket = None, conversationId = JNull, messageHandlers = [], typingHandlers = [],
      connectionHandlers = [], errorHandlers = []\<rparr>"

text \<open>\<open>this.socket && this.socket.readyState === WebSocket.OPEN\<close>\<close>

definition isConnected :: "'h WebSocketService \<Rightarrow> bool" where
  "isConnected s = (case socket s of None \<Rightarrow> False | Some sock \<Rightarrow> readyState sock = OPEN)"

definition disconnect :: "'h WebSocketService \<Rightarrow> effect list \<times> 'h WebSocketService" where
  "disconnect s =
     (if socket s \<noteq> None then ([SocketClose], s\<lparr>socket := None, conversationId := JNull\<rparr>)
      else ([], s))"
text \<open>
  \<open>connect(conversationId)\<close>. The argument is whatever value the caller passes.
  \<open>WebSocket\<close> is the browser's constructor: it returns a socket or throws. \<open>env\<close> is
  \<open>import.meta.env.VITE_WS_URL\<close>; \<open>||\<close> takes the default when it is unset or empty.
  The conversation id is assigned before the socket is constructed, so when the
  constructor throws, \<open>connect\<close> is left at that point with the id already stored: the
  third component of the result is the exception thrown, \<open>None\<close> when \<open>connect\<close> returns.
\<close>

definition connect ::
  "(string \<Rightarrow> js_error + web_socket) \<Rightarrow> string option \<Rightarrow> js_value \<Rightarrow> 'h WebSocketService \<Rightarrow>
   effect list \<times> 'h WebSocketService \<times> js_error option" where
  "connect WebSocket env cid s =
     (let (es, s1) = (if isConnected s then disconnect s else ([], s));
          s2 = s1\<lparr>conversationId := cid\<rparr>;
          base = (case env of None \<Rightarrow> ''ws://localhost:8000''
                  | Some u \<Rightarrow> if u = [] then ''ws://localhost:8000'' else u);
          wsUrl = base @ ''/ws/chat/'' @ to_string cid @ ''/''
      in case WebSocket wsUrl of
           Inl e \<Rightarrow> (es, s2, Some e)
         | Inr sock \<Rightarrow> (es @ [SocketNew wsUrl], s2\<lparr>socket := Some sock\<rparr>, None))"

text \<open>
  The browser's \<open>new WebSocket(url)\<close> for the URLs \<open>connect\<close> builds, which begin with the
  configured base: after parsing, the constructor throws a \<open>SyntaxError\<close> when the scheme
  is none of \<open>ws\<close>, \<open>wss\<close>, \<open>http\<close> and \<open>https\<close>, and when the URL has a fragment; otherwise
  the socket starts in \<open>CONNECTING\<close>. The parser's own failures (a malformed host or
  port) are not told apart here: the properties of \<open>connect\<close> below hold of any
  constructor, and this one serves the chat window and the concrete instances.
\<close>

definition url_scheme :: "string \<Rightarrow> string" where
  "url_scheme u = takeWhile (\<lambda>c. c \<noteq> CHR '':'') u"

definition browser_WebSocket :: "string \<Rightarrow> js_error + web_socket" where
  "browser_WebSocket u =
     (if url_scheme u \<notin> set [''ws'', ''wss'', ''http'', ''https''] then Inl SyntaxError
      else if CHR ''#'' \<in> set u then Inl SyntaxError
      else Inr \<lparr>url = u, readyState = CONNECTING\<rparr>)"
text \<open>
  \<open>handlers.forEach((handler) => handler(arg))\<close>: the calls made, in order. The handlers
  of this front end only set React state, so they never change the lists they are
  called from.
\<close>

definition forEach :: "'h list \<Rightarrow> js_value \<Rightarrow> ('h \<times> js_value) list" where
  "forEach hs arg = map (\<lambda>h. (h, arg)) hs"

text \<open>\<open>handleMessage(data)\<close>: reading \<open>data.type\<close> throws on \<open>null\<close> and \<open>undefined\<close>.\<close>

definition handleMessage ::
  "js_value \<Rightarrow> 'h WebSocketService \<Rightarrow> js_error + (effect list \<times> ('h \<times> js_value) list)" where
  "handleMessage data s =
     (if data = JNull \<or> data = JUndefined then Inl TypeError
      else if js_get data ''type'' = JStr ''message'' then
        Inr ([], forEach (messageHandlers s) (js_get data ''message''))
      else if js_get data ''type'' = JStr ''typing'' then
        Inr ([], forEach (typingHandlers s) data)
      else if js_get data ''type'' = JStr ''connection_established'' then
        Inr ([ConsoleLog ''Connection established:''], [])
      else if js_get data ''type'' = JStr ''error'' then
        Inr ([ConsoleError ''WebSocket error:''], forEach (errorHandlers s) (js_get data ''message''))
      else Inr ([ConsoleLog ''Unknown message type:''], []))"

text \<open>
  The four callbacks \<open>connect\<close> installs on the socket. \<open>socket_onmessage\<close> takes the
  result of \<open>JSON.parse(event.data)\<close>, \<open>None\<close> when it throws; the \<open>catch\<close> covers the
  parse and \<open>handleMessage\<close>.
\<close>

definition socket_onopen :: "'h WebSocketService \<Rightarrow> effect list \<times> ('h \<times> js_value) list" where
  "socket_onopen s = ([ConsoleLog ''WebSocket connected''], forEach (connectionHandlers s) (JBool True))"

definition socket_onmessage ::
  "js_value option \<Rightarrow> 'h WebSocketService \<Rightarrow> effect list \<times> ('h \<times> js_value) list" where
  "socket_onmessage parsed s =
     (case parsed of
        None \<Rightarrow> ([ConsoleError ''Error parsing WebSocket message:''], [])
      | Some data \<Rightarrow>
          (case handleMessage data s of
             Inl e \<Rightarrow> ([ConsoleError ''Error parsing WebSocket message:''], [])
           | Inr r \<Rightarrow> r))"

definition socket_onerror ::
  "js_value \<Rightarrow> 'h WebSocketService \<Rightarrow> effect list \<times> ('h \<times> js_value) list" where
  "socket_onerror err s = ([ConsoleError ''WebSocket error:''], forEach (errorHandlers s) err)"

definition socket_onclose :: "'h WebSocketService \<Rightarrow> effect list \<times> ('h \<times> js_value) list" where
  "socket_onclose s =
     ([ConsoleLog ''WebSocket disconnected''], forEach (connectionHandlers s) (JBool False))"

definition sendMessage :: "string \<Rightarrow> 'h WebSocketService \<Rightarrow> effect list" where
  "sendMessage content s =
     (if isConnected s then
        [SocketSend (JObj [(''type'', JStr ''message''), (''content'', JStr content)])]
      else [ConsoleError ''WebSocket is not connected''])"

definition sendTyping :: "bool \<Rightarrow> 'h WebSocketService \<Rightarrow> effect list" where
  "sendTyping isTyping s =
     (if isConnected s then
        [SocketSend (JObj [(''type'', JStr ''typing''), (''is_typing'', JBool isTyping)])]
      else [])"

definition sendReadReceipt :: "'h WebSocketService \<Rightarrow> effect list" where
  "sendReadReceipt s =
     (if isConnected s then [SocketSend (JObj [(''type'', JStr ''read'')])] else [])"

text \<open>
  \<open>onMessage(handler)\<close> and its three siblings: \<open>push\<close> appends the handler; the function
  returned filters it out of the list as it is when that function is called.
\<close>

definition onMessage ::
  "'h \<Rightarrow> 'h WebSocketService \<Rightarrow> 'h WebSocketService \<times> ('h WebSocketService \<Rightarrow> 'h WebSocketService)" where
  "onMessage handler s =
     (s\<lparr>messageHandlers := messageHandlers s @ [handler]\<rparr>,
      \<lambda>s'. s'\<lparr>messageHandlers := filter (\<lambda>h. h \<noteq> handler) (messageHandlers s')\<rparr>)"

definition onTyping ::
  "'h \<Rightarrow> 'h WebSocketService \<Rightarrow> 'h WebSocketService \<times> ('h WebSocketService \<Rightarrow> 'h WebSocketService)" where
  "onTyping handler s =
     (s\<lparr>typingHandlers := typingHandlers s @ [handler]\<rparr>,
      \<lambda>s'. s'\<lparr>typingHandlers := filter (\<lambda>h. h \<noteq> handler) (typingHandlers s')\<rparr>)"

definition onConnection ::
  "'h \<Rightarrow> 'h WebSocketService \<Rightarrow> 'h WebSocketService \<times> ('h WebSocketService \<Rightarrow> 'h WebSocketService)" where
  "onConnection handler s =
     (s\<lparr>connectionHandlers := connectionHandlers s @ [handler]\<rparr>,
      \<lambda>s'. s'\<lparr>connectionHandlers := filter (\<lambda>h. h \<noteq> handler) (connectionHandlers s')\<rparr>)"

definition onError ::
  "'h \<Rightarrow> 'h WebSocketService \<Rightarrow> 'h WebSocketService \<times> ('h WebSocketService \<Rightarrow> 'h WebSocketService)" where
  "onError handler s =
     (s\<lparr>errorHandlers := errorHandlers s @ [handler]\<rparr>,
      \<lambda>s'. s'\<lparr>errorHandlers := filter (\<lambda>h. h \<noteq> handler) (errorHandlers s')\<rparr>)"

text \<open>A service whose socket the browser has opened, for the concrete instances below.\<close>

definition open_service :: "nat WebSocketService" where
  "open_service =
     \<lparr>socket = Some \<lparr>url = ''ws://localhost:8000/ws/chat/c1/'', readyState = OPEN\<rparr>,
      conversationId = JStr ''c1'', messageHandlers = [], typingHandlers = [],
      connectionHandlers = [], errorHandlers = []\<rparr>"

section \<open>components/ChatWindow.jsx\<close>

text \<open>
  The component's state, the module-level service it talks to, the browser's timers and
  the effects emitted so far. \<open>clock\<close> is the time in milliseconds. The history fetch
  (\<open>loadMessages\<close>) is left out: it only replaces \<open>messages\<close> once.

  The functions \<open>connectWebSocket\<close> hands to the service are closures created at each
  call, so each carries the number it was created under; timer callbacks are the two
  arrow functions given to \<open>setTimeout\<close>.
\<close>

datatype closure = OnConnectionFn nat | OnMessageFn nat | OnTypingFn nat

datatype timer_fn = ClearTypingUserFn | SendTypingFalseFn

record timer =
  timer_id :: nat
  due :: nat
  callback :: timer_fn

record chat_window =
  websocketService :: "closure WebSocketService"
  VITE_WS_URL :: "string option"
  messages :: "js_value list"
  newMessage :: string
  connected :: js_value
  typingUser :: js_value
  typingTimeoutRef :: "nat option"
  clock :: nat
  timers :: "timer list"
  next_timer :: nat
  next_closure :: nat
  out :: "effect list"

text \<open>\<open>setTimeout(fn, delay)\<close> returns the new timer's id; \<open>clearTimeout\<close> of \<open>null\<close> or of
  an id that is not pending does nothing.\<close>

definition setTimeout :: "timer_fn \<Rightarrow> nat \<Rightarrow> chat_window \<Rightarrow> nat \<times> chat_window" where
  "setTimeout fn delay w =
     (next_timer w,
      w\<lparr>timers := timers w @ [\<lparr>timer_id = next_timer w, due = clock w + delay, callback = fn\<rparr>],
        next_timer := Suc (next_timer w)\<rparr>)"

definition clearTimeout :: "nat option \<Rightarrow> chat_window \<Rightarrow> chat_window" where
  "clearTimeout ref w =
     (case ref of None \<Rightarrow> w
      | Some i \<Rightarrow> w\<lparr>timers := filter (\<lambda>t. timer_id t \<noteq> i) (timers w)\<rparr>)"

text \<open>The bodies of the three handlers registered by \<open>connectWebSocket\<close>.\<close>

fun call_handler :: "closure \<Rightarrow> js_value \<Rightarrow> chat_window \<Rightarrow> chat_window" where
  "call_handler (OnConnectionFn i) is_connected w = w\<lparr>connected := is_connected\<rparr>"
| "call_handler (OnMessageFn i) message w = w\<lparr>messages := messages w @ [message]\<rparr>"
| "call_handler (OnTypingFn i) data w =
     (if truthy (js_get data ''is_typing'') then
        (let w1 = w\<lparr>typingUser := js_get data ''user_name''\<rparr>;
             w2 = clearTimeout (typingTimeoutRef w1) w1;
             (t, w3) = setTimeout ClearTypingUserFn 3000 w2
         in w3\<lparr>typingTimeoutRef := Some t\<rparr>)
      else w\<lparr>typingUser := JNull\<rparr>)"

definition run_calls :: "(closure \<times> js_value) list \<Rightarrow> chat_window \<Rightarrow> chat_window" where
  "run_calls cs w = foldl (\<lambda>w' (h, arg). call_handler h arg w') w cs"

text \<open>
  \<open>connectWebSocket\<close>, for a conversation of the server's list, whose id is a string. The
  unsubscribe functions the service returns are dropped. When \<open>connect\<close> throws, the
  exception leaves \<open>connectWebSocket\<close> and the effect before any handler is registered,
  and nothing in the component catches it.
\<close>

definition connectWebSocket :: "conv_id \<Rightarrow> chat_window \<Rightarrow> chat_window" where
  "connectWebSocket cid w =
     (case connect browser_WebSocket (VITE_WS_URL w) (JStr cid) (websocketService w) of
        (es, s1, Some e) \<Rightarrow> w\<lparr>websocketService := s1, out := out w @ es @ [Uncaught e]\<rparr>
      | (es, s1, None) \<Rightarrow>
          (let n = next_closure w;
               s2 = fst (onConnection (OnConnectionFn n) s1);
               s3 = fst (onMessage (OnMessageFn (n + 1)) s2);
               s4 = fst (onTyping (OnTypingFn (n + 2)) s3)
           in w\<lparr>websocketService := s4, next_closure := n + 3, out := out w @ es\<rparr>))"

text \<open>
  The effect keyed on \<open>conversation.id\<close>: its body, its cleanup, and what React does when
  the parent passes another conversation to the mounted component (\<open>Chat.jsx\<close> renders
  \<open><ChatWindow conversation={selectedConversation} .../>\<close> without a key): cleanup, then
  the body again.
\<close>

definition useEffect_body :: "conv_id \<Rightarrow> chat_window \<Rightarrow> chat_window" where
  "useEffect_body cid w = connectWebSocket cid w"

definition useEffect_cleanup :: "chat_window \<Rightarrow> chat_window" where
  "useEffect_cleanup w =
     (let (es, s) = disconnect (websocketService w)
      in w\<lparr>websocketService := s, out := out w @ es\<rparr>)"

definition select_conversation :: "conv_id \<Rightarrow> chat_window \<Rightarrow> chat_window" where
  "select_conversation cid w = useEffect_body cid (useEffect_cleanup w)"

definition ChatWindow :: "string option \<Rightarrow> conv_id \<Rightarrow> chat_window" where
  "ChatWindow env cid =
     useEffect_body cid
       \<lparr>websocketService = constructor, VITE_WS_URL = env, messages = [], newMessage = [],
        connected = JBool False, typingUser = JNull, typingTimeoutRef = None, clock = 0,
        timers = [], next_timer = 1, next_closure = 0, out = []\<rparr>"

text \<open>The browser opens the current socket, or delivers a frame on it.\<close>

definition browser_open :: "chat_window \<Rightarrow> chat_window" where
  "browser_open w =
     (case socket (websocketService w) of
        None \<Rightarrow> w
      | Some sock \<Rightarrow>
          (let s = (websocketService w)\<lparr>socket := Some (sock\<lparr>readyState := OPEN\<rparr>)\<rparr>;
               (es, cs) = socket_onopen s
           in run_calls cs (w\<lparr>websocketService := s, out := out w @ es\<rparr>)))"

definition browser_message :: "js_value option \<Rightarrow> chat_window \<Rightarrow> chat_window" where
  "browser_message parsed w =
     (let (es, cs) = socket_onmessage parsed (websocketService w)
      in run_calls cs (w\<lparr>out := out w @ es\<rparr>))"

text \<open>
  \<open>String.prototype.trim\<close>. HOL characters are eight bits wide, so the white space is
  that of JavaScript below U+0100: tab, line feed, vertical tab, form feed, carriage
  return, space and no-break space.
\<close>

definition js_whitespace :: "char \<Rightarrow> bool" where
  "js_whitespace c =
     (c \<in> set [CHR 0x09, CHR 0x0A, CHR 0x0B, CHR 0x0C, CHR 0x0D, CHR 0x20, CHR 0xA0])"

definition trim :: "string \<Rightarrow> string" where
  "trim s = rev (dropWhile js_whitespace (rev (dropWhile js_whitespace s)))"

text \<open>The submit handler of the form (\<open>e.preventDefault()\<close> touches nothing modelled).\<close>

definition handleSendMessage :: "chat_window \<Rightarrow> chat_window" where
  "handleSendMessage w =
     (if trim (newMessage w) = [] \<or> \<not> truthy (connected w) then w
      else w\<lparr>out := out w @ sendMessage (trim (newMessage w)) (websocketService w),
             newMessage := []\<rparr>)"

definition handleTyping :: "chat_window \<Rightarrow> chat_window" where
  "handleTyping w =
     (if truthy (connected w) then
        (let w1 = w\<lparr>out := out w @ sendTyping True (websocketService w)\<rparr>;
             w2 = clearTimeout (typingTimeoutRef w1) w1;
             (t, w3) = setTimeout SendTypingFalseFn 1000 w2
         in w3\<lparr>typingTimeoutRef := Some t\<rparr>)
      else w)"

text \<open>The input's \<open>onChange\<close>: \<open>setNewMessage(e.target.value); handleTyping()\<close>.\<close>

definition input_onChange :: "string \<Rightarrow> chat_window \<Rightarrow> chat_window" where
  "input_onChange v w = handleTyping (w\<lparr>newMessage := v\<rparr>)"

text \<open>
  Time passes: the timers that fall due fire in the order of their due times (creation
  order among equals) and are gone. Neither callback sets a timer, so one pass is all.
\<close>

definition run_timer :: "timer \<Rightarrow> chat_window \<Rightarrow> chat_window" where
  "run_timer t w =
     (case callback t of
        ClearTypingUserFn \<Rightarrow> w\<lparr>typingUser := JNull\<rparr>
      | SendTypingFalseFn \<Rightarrow> w\<lparr>out := out w @ sendTyping False (websocketService w)\<rparr>)"

definition advance :: "nat \<Rightarrow> chat_window \<Rightarrow> chat_window" where
  "advance d w =
     (let target = clock w + d;
          ready = sort_key (\<lambda>t. (due t, timer_id t)) (filter (\<lambda>t. due t \<le> target) (timers w));
          w1 = w\<lparr>timers := filter (\<lambda>t. \<not> due t \<le> target) (timers w), clock := target\<rparr>
      in foldl (\<lambda>w' t. run_timer t w') w1 ready)"

text \<open>The typing indicator is rendered under \<open>{typingUser && ...}\<close>.\<close>

definition typing_indicator_shown :: "chat_window \<Rightarrow> bool" where
  "typing_indicator_shown w = truthy (typingUser w)"

section \<open>context/AuthContext.jsx\<close>

record auth_provider =
  user :: js_value
  loading :: bool

text \<open>How an awaited promise settles.\<close>

datatype 'a settled = Fulfilled 'a | Rejected js_value

text \<open>\<open>isAuthenticated: !!user\<close>\<close>

definition isAuthenticated :: "auth_provider \<Rightarrow> bool" where
  "isAuthenticated a = truthy (user a)"

text \<open>
  \<open>logout\<close>, given how \<open>authAPI.logout()\<close> settles: what the async function settles to,
  the console output and the provider's state afterwards.
\<close>

definition logout ::
  "js_value settled \<Rightarrow> auth_provider \<Rightarrow> unit settled \<times> effect list \<times> auth_provider" where
  "logout api a =
     (case api of
        Fulfilled response \<Rightarrow> (Fulfilled (), [], a\<lparr>user := JNull\<rparr>)
      | Rejected error \<Rightarrow> (Fulfilled (), [ConsoleError ''Logout error:''], a\<lparr>user := JNull\<rparr>))"

section \<open>Message Store\<close>

text \<open>
  The server side of the repository (the message store and the rate limiter) is not among
  the sources; only the front end is. The two sections that follow are therefore written
  from sections 3, 4.1, 4.5 and 9 of the specification. Timestamps are fixed-point
  numbers (a natural number of the sub-second unit).
\<close>

type_synonym conversation_id = nat
type_synonym user_id = nat

text \<open>Modelled from the spec: the identifier of a Message, a time-sortable value made of
  the assigned timestamp and a tie-breaking suffix (the server's id generator is missing).\<close>

type_synonym message_id = "nat \<times> nat"

text \<open>Modelled from the spec: the Message record of section 3 (the server's message type
  is missing).\<close>

record message =
  msg_id :: message_id
  msg_conversationId :: conversation_id
  senderId :: user_id
  msg_content :: string
  createdAtEpochSeconds :: nat

text \<open>Modelled from the spec: the store's configuration, that is the length bound on
  content, the retention window, the \<open>\<epsilon>\<close> of the logical clock and the hard maximum of
  \<open>limit\<close> (the server's settings are missing).\<close>

record store_config =
  content_bound :: nat
  retention :: nat
  epsilon :: nat
  max_limit :: nat

text \<open>Modelled from the spec: the history of one conversation, kept in the order of the
  score, with the expiry timestamp of the whole history (the server's storage is
  missing).\<close>

record conversation_log =
  entries :: "message list"
  expiresAt :: nat

text \<open>Modelled from the spec: the store, the histories by conversation and the timestamp
  of the previous append of each conversation (the server's storage is missing).\<close>

record message_store =
  logs :: "conversation_id \<Rightarrow> conversation_log option"
  lastAppended :: "conversation_id \<Rightarrow> nat option"

definition empty_store :: message_store where
  "empty_store = \<lparr>logs = (\<lambda>c. None), lastAppended = (\<lambda>c. None)\<rparr>"

datatype store_error = ValidationError | StoreUnavailable

text \<open>Modelled from the spec: one call of \<open>append\<close> as the store sees it, with the wall
  clock at the call, the random suffix drawn for the id and whether the backing store can
  be reached (the server's append path is missing).\<close>

record append_request =
  wallClock :: nat
  id_suffix :: nat
  req_senderId :: user_id
  req_content :: string
  store_up :: bool

text \<open>Modelled from the spec: the ordering of messages within a conversation,
  \<open>createdAtEpochSeconds\<close> with ties broken by \<open>id\<close>.\<close>

definition order_key :: "message \<Rightarrow> nat \<times> message_id" where
  "order_key m = (createdAtEpochSeconds m, msg_id m)"

text \<open>Modelled from the spec: the live messages of a conversation, its entries while the
  expiry timestamp (checked on read) has not passed.\<close>

definition live_messages :: "conversation_id \<Rightarrow> nat \<Rightarrow> message_store \<Rightarrow> message list" where
  "live_messages c now st =
     (case logs st c of
        None \<Rightarrow> []
      | Some l \<Rightarrow> if now < expiresAt l then entries l else [])"

text \<open>Modelled from the spec: \<open>append(conversationId, senderId, content)\<close> of section 4.1
  (the server's append is missing). The timestamp is \<open>max(wallClock, lastAppended + \<epsilon>)\<close>;
  the record is stored under its score; the expiry of the whole history is set to the
  retention window after this append.\<close>

definition append_message ::
  "store_config \<Rightarrow> conversation_id \<Rightarrow> append_request \<Rightarrow> message_store \<Rightarrow>
   store_error + (message \<times> message_store)" where
  "append_message cfg c r st =
     (if req_content r = [] \<or> content_bound cfg < length (req_content r) then Inl ValidationError
      else if \<not> store_up r then Inl StoreUnavailable
      else
        (let ts = (case lastAppended st c of
                     None \<Rightarrow> wallClock r
                   | Some l \<Rightarrow> max (wallClock r) (l + epsilon cfg));
             m = \<lparr>msg_id = (ts, id_suffix r), msg_conversationId = c,
                  senderId = req_senderId r, msg_content = req_content r,
                  createdAtEpochSeconds = ts\<rparr>;
             es = insort_key order_key m (live_messages c (wallClock r) st)
         in Inr (m, st\<lparr>logs := (logs st)(c \<mapsto> \<lparr>entries = es, expiresAt = wallClock r + retention cfg\<rparr>),
                        lastAppended := (lastAppended st)(c \<mapsto> ts)\<rparr>)))"

text \<open>Modelled from the spec: \<open>range(conversationId, limit, offset)\<close> of section 4.1, read
  at the time \<open>now\<close>, oldest first (the server's range read is missing). \<open>limit\<close> is clamped
  to the hard maximum; an offset beyond the total gives an empty slice.\<close>

definition range_messages ::
  "store_config \<Rightarrow> conversation_id \<Rightarrow> nat \<Rightarrow> nat \<Rightarrow> nat \<Rightarrow> message_store \<Rightarrow> message list \<times> nat" where
  "range_messages cfg c limit offset now st =
     (let es = live_messages c now st
      in (take (min limit (max_limit cfg)) (drop offset es), length es))"

text \<open>Modelled from the spec: a sequence of appends to one conversation. A failed append
  leaves the store as it was; the messages of the successful ones are collected in the
  order of the calls.\<close>

fun append_all ::
  "store_config \<Rightarrow> conversation_id \<Rightarrow> append_request list \<Rightarrow> message_store \<Rightarrow>
   message list \<times> message_store" where
  "append_all cfg c [] st = ([], st)"
| "append_all cfg c (r # rs) st =
     (case append_message cfg c r st of
        Inl e \<Rightarrow> append_all cfg c rs st
      | Inr (m, st') \<Rightarrow> (let (ms, st'') = append_all cfg c rs st' in (m # ms, st'')))"

section \<open>Rate Limiter\<close>

datatype endpoint_class = history_read | message_send | anonymous | authenticated

text \<open>Modelled from the spec: the outcome of \<open>allow\<close>, where a denial carries the
  remaining wait (the server's throttle is missing).\<close>

datatype admission = Allowed | Denied nat

text \<open>Modelled from the spec: the limiter's configuration, the window length and the
  ceiling of each endpoint class, \<open>None\<close> for an unlimited class (the server's settings are
  missing).\<close>

record limiter_config =
  window :: nat
  ceiling_of :: "endpoint_class \<Rightarrow> nat option"

text \<open>Modelled from the spec: the RateWindow of section 3, per user and endpoint class
  the timestamps of the counted requests, oldest first.\<close>

type_synonym rate_windows = "user_id \<times> endpoint_class \<Rightarrow> nat list"

text \<open>Modelled from the spec: \<open>allow(userId, endpointClass)\<close> of section 4.5 at the time
  \<open>now\<close> (the server's throttle is missing). Entries that have aged out of the window are
  dropped; below the ceiling the request is counted and admitted; at the ceiling it is
  denied, not counted, and the wait is the time until the oldest counted request ages
  out.\<close>

definition allow ::
  "limiter_config \<Rightarrow> user_id \<Rightarrow> endpoint_class \<Rightarrow> nat \<Rightarrow> rate_windows \<Rightarrow> admission \<times> rate_windows" where
  "allow cfg u c now rw =
     (let counted = filter (\<lambda>t. now < t + window cfg) (rw (u, c))
      in case ceiling_of cfg c of
           None \<Rightarrow> (Allowed, rw((u, c) := counted @ [now]))
         | Some n \<Rightarrow>
             if length counted < n then (Allowed, rw((u, c) := counted @ [now]))
             else (Denied (case counted of [] \<Rightarrow> window cfg | t # ts \<Rightarrow> t + window cfg - now),
                   rw((u, c) := counted)))"

text \<open>Modelled from the spec: successive calls of \<open>allow\<close> for one user and class at the
  given times.\<close>

fun allow_each ::
  "limiter_config \<Rightarrow> user_id \<Rightarrow> endpoint_class \<Rightarrow> nat list \<Rightarrow> rate_windows \<Rightarrow>
   admission list \<times> rate_windows" where
  "allow_each cfg u c [] rw = ([], rw)"
| "allow_each cfg u c (t # ts) rw =
     (let (d, rw') = allow cfg u c t rw;
          (ds, rw'') = allow_each cfg u c ts rw'
      in (d # ds, rw''))"

text \<open>Modelled from the spec: the history-read class at 10 per minute (in milliseconds),
  the other classes as the repository's documentation gives them.\<close>

definition default_limits :: limiter_config where
  "default_limits =
     \<lparr>window = 60000,
      ceiling_of = (\<lambda>c. case c of history_read \<Rightarrow> Some 10 | message_send \<Rightarrow> None
                         | anonymous \<Rightarrow> Some 20 | authenticated \<Rightarrow> Some 100)\<rparr>"

section \<open>Properties the claims are stated with, and concrete instances\<close>

text \<open>The socket field is null exactly when the conversation id is.\<close>

definition socket_iff_conversation :: "'h WebSocketService \<Rightarrow> bool" where
  "socket_iff_conversation s = ((socket s = None) = (conversationId s = JNull))"

text \<open>
  \<open>after\<close> is \<open>before\<close> with \<open>h\<close> removed and nothing else touched: what is left is in
  its old order, \<open>h\<close> is gone, and every other handler is there as often as before.
\<close>

definition removes_only :: "'h \<Rightarrow> 'h list \<Rightarrow> 'h list \<Rightarrow> bool" where
  "removes_only h before after =
     (subseq after before \<and> h \<notin> set after \<and>
      (\<forall>g. g \<noteq> h \<longrightarrow> count_list after g = count_list before g))"

text \<open>A mounted chat window whose socket the browser has opened.\<close>

definition open_window :: chat_window where
  "open_window = browser_open (ChatWindow None ''c1'')"

text \<open>The typing event as the repository's protocol documentation spells it, and as the
  specification spells it.\<close>

definition typing_event :: "string \<Rightarrow> bool \<Rightarrow> js_value" where
  "typing_event name b =
     JObj [(''type'', JStr ''typing''), (''user_id'', JNum 2), (''user_name'', JStr name),
           (''is_typing'', JBool b)]"

definition typing_event_camel :: "string \<Rightarrow> bool \<Rightarrow> js_value" where
  "typing_event_camel name b =
     JObj [(''type'', JStr ''typing''), (''userId'', JNum 2), (''userName'', JStr name),
           (''isTyping'', JBool b)]"

definition hello_message :: js_value where
  "hello_message =
     JObj [(''id'', JStr ''m1''), (''sender_id'', JNum 2), (''content'', JStr ''hi'')]"

definition message_event :: "js_value \<Rightarrow> js_value" where
  "message_event m = JObj [(''type'', JStr ''message''), (''message'', m)]"

text \<open>A signed-in provider.\<close>

definition signed_in :: auth_provider where
  "signed_in = \<lparr>user = JObj [(''id'', JNum 1), (''email'', JStr ''a@b.c'')], loading = False\<rparr>"

text \<open>
  A typing event from Bob arrives; one second later the local user types a character;
  five more seconds pass.
\<close>

definition stuck_window :: chat_window where
  "stuck_window =
     advance 5000 (input_onChange ''h'' (advance 1000
       (browser_message (Some (typing_event ''Bob'' True)) open_window)))"

text \<open>A service with two handlers in each list.\<close>

definition two_handlers :: "nat WebSocketService" where
  "two_handlers =
     \<lparr>socket = None, conversationId = JNull, messageHandlers = [1, 2], typingHandlers = [1, 2],
      connectionHandlers = [1, 2], errorHandlers = [1, 2]\<rparr>"

text \<open>The history of a conversation is kept in the order of the score.\<close>

definition store_sorted :: "conversation_id \<Rightarrow> message_store \<Rightarrow> bool" where
  "store_sorted c st =
     (case logs st c of None \<Rightarrow> True | Some l \<Rightarrow> sorted (map order_key (entries l)))"

text \<open>The history of a conversation, if there is one, has not expired at \<open>now\<close>.\<close>

definition unexpired :: "conversation_id \<Rightarrow> nat \<Rightarrow> message_store \<Rightarrow> bool" where
  "unexpired c now st = (case logs st c of None \<Rightarrow> True | Some l \<Rightarrow> now < expiresAt l)"

text \<open>
  A store configuration and four appends to conversation 7: the second comes with a wall
  clock that has gone back, the third has empty content.
\<close>

definition sample_config :: store_config where
  "sample_config = \<lparr>content_bound = 5, retention = 1000, epsilon = 1, max_limit = 100\<rparr>"

definition sample_appends :: "append_request list" where
  "sample_appends =
     [\<lparr>wallClock = 100, id_suffix = 5, req_senderId = 1, req_content = ''hi'', store_up = True\<rparr>,
      \<lparr>wallClock = 90, id_suffix = 3, req_senderId = 2, req_content = ''yo'', store_up = True\<rparr>,
      \<lparr>wallClock = 150, id_suffix = 9, req_senderId = 1, req_content = [], store_up = True\<rparr>,
      \<lparr>wallClock = 200, id_suffix = 1, req_senderId = 2, req_content = ''ok'', store_up = True\<rparr>]"

text \<open>Ten further history reads of one user after a first one at time 0, a millisecond
  apart.\<close>

definition rapid_calls :: "nat list" where
  "rapid_calls = [1, 2, 3, 4, 5, 6, 7, 8, 9, 10]"


section \<open>The frames the service sends\<close>

lemmas window_defs =
  open_window_def ChatWindow_def useEffect_body_def useEffect_cleanup_def select_conversation_def
  connectWebSocket_def connect_def browser_WebSocket_def url_scheme_def disconnect_def
  isConnected_def constructor_def onConnection_def onMessage_def onTyping_def browser_open_def
  socket_onopen_def forEach_def run_calls_def browser_message_def socket_onmessage_def
  handleMessage_def advance_def input_onChange_def handleTyping_def sendTyping_def
  clearTimeout_def setTimeout_def run_timer_def typing_event_def typing_event_camel_def
  message_event_def hello_message_def typing_indicator_shown_def Let_def

text \<open>
  C1, as the code has it. The typing protocol is spelled in snake case: on an open
  socket \<open>sendTyping(b)\<close> sends the one frame \<open>{type: "typing", is_typing: b}\<close>, and the
  typing handler of the chat window reads the flag from \<open>is_typing\<close> and the sender's
  name from \<open>user_name\<close>: it shows \<open>data.user_name\<close> when \<open>data.is_typing\<close> is truthy and
  clears the indicator otherwise.
\<close>

theorem typing_fields_snake_case:
  "(isConnected s \<longrightarrow>
      sendTyping b s = [SocketSend (JObj [(''type'', JStr ''typing''), (''is_typing'', JBool b)])]) \<and>
   typingUser (call_handler (OnTypingFn i) data w) =
     (if truthy (js_get data ''is_typing'') then js_get data ''user_name'' else JNull)"
  by (simp add: sendTyping_def clearTimeout_def setTimeout_def Let_def split: option.splits)

theorem typing_fields_snake_case_witness:
  "isConnected open_service \<and>
   sendTyping True open_service =
     [SocketSend (JObj [(''type'', JStr ''typing''), (''is_typing'', JBool True)])] \<and>
   typingUser (call_handler (OnTypingFn 2) (typing_event ''Bob'' True) open_window) = JStr ''Bob''"
  using typing_fields_snake_case [of open_service True 2 "typing_event ''Bob'' True" open_window]
  by (simp add: isConnected_def open_service_def typing_event_def)

text \<open>
  C1, as the claim has it, fails: the frame sent for \<open>sendTyping(true)\<close> is not
  \<open>{type: "typing", isTyping: true}\<close>, and a typing event in the shape
  \<open>{type: "typing", userId, userName, isTyping: true}\<close> leaves the indicator empty.
\<close>

theorem typing_fields_camel_case_counterexample:
  "sendTyping True open_service \<noteq>
     [SocketSend (JObj [(''type'', JStr ''typing''), (''isTyping'', JBool True)])] \<and>
   typingUser (call_handler (OnTypingFn 2) (typing_event_camel ''Bob'' True) open_window) = JNull"
  by (simp add: sendTyping_def isConnected_def open_service_def typing_event_camel_def)

text \<open>
  C3. On an open socket \<open>sendMessage(content)\<close> sends the one frame
  \<open>{type: "message", content: content}\<close>, with these two fields only. \<open>handleSendMessage\<close>
  does nothing when the trimmed input is empty or the window is not connected; it emits
  at most one effect, and a frame it sends carries the trimmed input, which is not
  empty.
\<close>

theorem sendMessage_frame_nonempty:
  "(isConnected s \<longrightarrow>
      sendMessage content s =
        [SocketSend (JObj [(''type'', JStr ''message''), (''content'', JStr content)])]) \<and>
   (trim (newMessage w) = [] \<or> \<not> truthy (connected w) \<longrightarrow> handleSendMessage w = w) \<and>
   (\<exists>es. out (handleSendMessage w) = out w @ es \<and> length es \<le> 1 \<and>
      (\<forall>f. SocketSend f \<in> set es \<longrightarrow>
         (\<exists>c. c \<noteq> [] \<and> c = trim (newMessage w) \<and>
              f = JObj [(''type'', JStr ''message''), (''content'', JStr c)])))"
  by (auto simp: sendMessage_def handleSendMessage_def)

theorem sendMessage_frame_nonempty_witness:
  "isConnected open_service \<and>
   sendMessage ''hi'' open_service =
     [SocketSend (JObj [(''type'', JStr ''message''), (''content'', JStr ''hi'')])] \<and>
   out (handleSendMessage (open_window\<lparr>newMessage := ''  hi ''\<rparr>)) =
     out open_window @ [SocketSend (JObj [(''type'', JStr ''message''), (''content'', JStr ''hi'')])] \<and>
   trim ''  '' = [] \<and>
   handleSendMessage (open_window\<lparr>newMessage := ''  ''\<rparr>) = open_window\<lparr>newMessage := ''  ''\<rparr>"
  using sendMessage_frame_nonempty [of open_service "''hi''" "open_window\<lparr>newMessage := ''  hi ''\<rparr>"]
    sendMessage_frame_nonempty [of open_service "''hi''" "open_window\<lparr>newMessage := ''  ''\<rparr>"]
  by (simp add: window_defs open_service_def handleSendMessage_def trim_def js_whitespace_def
      sendMessage_def)

text \<open>
  C7. Whenever the socket is open, \<open>sendReadReceipt()\<close> sends the one frame
  \<open>{type: "read"}\<close>, an object with the single field \<open>type\<close>; when the socket is missing
  or not open it sends nothing (and logs nothing).
\<close>

theorem sendReadReceipt_frame:
  "(isConnected s \<longrightarrow> sendReadReceipt s = [SocketSend (JObj [(''type'', JStr ''read'')])]) \<and>
   (\<not> isConnected s \<longrightarrow> sendReadReceipt s = [])"
  by (simp add: sendReadReceipt_def)

theorem sendReadReceipt_frame_witness:
  "isConnected open_service \<and>
   sendReadReceipt open_service = [SocketSend (JObj [(''type'', JStr ''read'')])] \<and>
   \<not> isConnected (constructor :: nat WebSocketService) \<and>
   sendReadReceipt (constructor :: nat WebSocketService) = []"
  using sendReadReceipt_frame [of open_service]
    sendReadReceipt_frame [of "constructor :: nat WebSocketService"]
  by (simp add: isConnected_def open_service_def constructor_def)

section \<open>The service's state\<close>

text \<open>
  C8, as the code has it. The socket field is null exactly when the conversation id
  field is: this holds of the state the constructor builds; \<open>disconnect\<close> keeps it; and
  it holds after every call of \<open>connect\<close> that is given a conversation id other than
  \<open>null\<close> and that returns, that is, in which \<open>new WebSocket\<close> does not throw, whatever
  the browser's constructor does otherwise and whatever the state before the call.
\<close>

theorem socket_iff_conversation_when_connect_returns:
  "socket_iff_conversation (constructor :: 'h WebSocketService) \<and>
   (socket_iff_conversation s \<longrightarrow> socket_iff_conversation (snd (disconnect s))) \<and>
   (cid \<noteq> JNull \<and> snd (snd (connect WebSocket env cid s)) = None \<longrightarrow>
      socket_iff_conversation (fst (snd (connect WebSocket env cid s))))"
  by (auto simp: socket_iff_conversation_def constructor_def connect_def disconnect_def Let_def
      split: prod.splits sum.splits if_splits)

theorem socket_iff_conversation_when_connect_returns_witness:
  "socket_iff_conversation (constructor :: nat WebSocketService) \<and>
   socket_iff_conversation open_service \<and>
   socket_iff_conversation (snd (disconnect open_service)) \<and>
   conversationId (snd (disconnect open_service)) = JNull \<and>
   JStr ''c2'' \<noteq> JNull \<and>
   snd (snd (connect browser_WebSocket None (JStr ''c2'') open_service)) = None \<and>
   socket_iff_conversation (fst (snd (connect browser_WebSocket None (JStr ''c2'') open_service))) \<and>
   conversationId (fst (snd (connect browser_WebSocket None (JStr ''c2'') open_service))) = JStr ''c2''"
  using socket_iff_conversation_when_connect_returns
    [of open_service "JStr ''c2''" browser_WebSocket None]
  by (simp add: socket_iff_conversation_def open_service_def connect_def disconnect_def
      isConnected_def browser_WebSocket_def url_scheme_def Let_def)

text \<open>
  C8, as the claim has it, fails: not every call of \<open>connect\<close> keeps the invariant.
  From the constructor's state, \<open>connect("a#b")\<close> stores the id and then \<open>new WebSocket\<close>
  throws a \<open>SyntaxError\<close> on the fragment, so the id is set and the socket is null; the
  same happens for any id when \<open>VITE_WS_URL\<close> is \<open>localhost:8000\<close>, whose scheme is not a
  WebSocket one; and \<open>connect(null)\<close> returns with a socket and a null id.
\<close>

theorem socket_iff_conversation_connect_counterexample:
  "socket_iff_conversation (constructor :: nat WebSocketService) \<and>
   snd (snd (connect browser_WebSocket None (JStr ''a#b'') (constructor :: nat WebSocketService))) =
     Some SyntaxError \<and>
   \<not> socket_iff_conversation
     (fst (snd (connect browser_WebSocket None (JStr ''a#b'') (constructor :: nat WebSocketService)))) \<and>
   snd (snd (connect browser_WebSocket (Some ''localhost:8000'') (JStr ''c1'')
     (constructor :: nat WebSocketService))) = Some SyntaxError \<and>
   \<not> socket_iff_conversation
     (fst (snd (connect browser_WebSocket (Some ''localhost:8000'') (JStr ''c1'')
        (constructor :: nat WebSocketService)))) \<and>
   snd (snd (connect browser_WebSocket None JNull (constructor :: nat WebSocketService))) = None \<and>
   \<not> socket_iff_conversation
     (fst (snd (connect browser_WebSocket None JNull (constructor :: nat WebSocketService))))"
  by (simp add: socket_iff_conversation_def constructor_def connect_def isConnected_def
      browser_WebSocket_def url_scheme_def Let_def)

lemma removes_only_filter: "removes_only h xs (filter (\<lambda>x. x \<noteq> h) xs)"
  unfolding removes_only_def
proof (intro conjI allI impI)
  show "subseq (filter (\<lambda>x. x \<noteq> h) xs) xs" by (rule subseq_filter_left)
  show "h \<notin> set (filter (\<lambda>x. x \<noteq> h) xs)" by simp
  fix g assume "g \<noteq> h"
  then show "count_list (filter (\<lambda>x. x \<noteq> h) xs) g = count_list xs g"
    by (induction xs) auto
qed

lemma filter_absent: "h \<notin> set xs \<Longrightarrow> filter (\<lambda>x. x \<noteq> h) xs = xs"
  by (induction xs) auto

lemma onMessage_roundtrip:
  "h \<notin> set (messageHandlers s) \<Longrightarrow> snd (onMessage h s) (fst (onMessage h s)) = s"
  by (simp add: onMessage_def filter_absent)

lemma onTyping_roundtrip:
  "h \<notin> set (typingHandlers s) \<Longrightarrow> snd (onTyping h s) (fst (onTyping h s)) = s"
  by (simp add: onTyping_def filter_absent)

lemma onConnection_roundtrip:
  "h \<notin> set (connectionHandlers s) \<Longrightarrow> snd (onConnection h s) (fst (onConnection h s)) = s"
  by (simp add: onConnection_def filter_absent)

lemma onError_roundtrip:
  "h \<notin> set (errorHandlers s) \<Longrightarrow> snd (onError h s) (fst (onError h s)) = s"
  by (simp add: onError_def filter_absent)

text \<open>
  C9. For a handler \<open>h\<close> that is not registered, \<open>onMessage(h)\<close> followed by the function
  it returns gives back the service as it was, and so for \<open>onTyping\<close>, \<open>onConnection\<close> and
  \<open>onError\<close>. Called in any later state \<open>t\<close>, the returned function removes \<open>h\<close> from
  its list and nothing else: the other handlers stay, as often and in the order they
  were.
\<close>

theorem subscribe_unsubscribe_roundtrip:
  "(h \<notin> set (messageHandlers s) \<longrightarrow> snd (onMessage h s) (fst (onMessage h s)) = s) \<and>
   (h \<notin> set (typingHandlers s) \<longrightarrow> snd (onTyping h s) (fst (onTyping h s)) = s) \<and>
   (h \<notin> set (connectionHandlers s) \<longrightarrow> snd (onConnection h s) (fst (onConnection h s)) = s) \<and>
   (h \<notin> set (errorHandlers s) \<longrightarrow> snd (onError h s) (fst (onError h s)) = s) \<and>
   removes_only h (messageHandlers t) (messageHandlers (snd (onMessage h s) t)) \<and>
   removes_only h (typingHandlers t) (typingHandlers (snd (onTyping h s) t)) \<and>
   removes_only h (connectionHandlers t) (connectionHandlers (snd (onConnection h s) t)) \<and>
   removes_only h (errorHandlers t) (errorHandlers (snd (onError h s) t))"
  by (simp add: onMessage_roundtrip onTyping_roundtrip onConnection_roundtrip onError_roundtrip
      removes_only_filter)
    (simp add: onMessage_def onTyping_def onConnection_def onError_def removes_only_filter)

theorem subscribe_unsubscribe_roundtrip_witness:
  "(3::nat) \<notin> set (messageHandlers two_handlers) \<and>
   snd (onMessage 3 two_handlers) (fst (onMessage 3 two_handlers)) = two_handlers \<and>
   snd (onTyping 3 two_handlers) (fst (onTyping 3 two_handlers)) = two_handlers \<and>
   snd (onConnection 3 two_handlers) (fst (onConnection 3 two_handlers)) = two_handlers \<and>
   snd (onError 3 two_handlers) (fst (onError 3 two_handlers)) = two_handlers \<and>
   messageHandlers (snd (onMessage 3 two_handlers)
      (fst (onMessage 4 (fst (onMessage 3 two_handlers))))) = [1, 2, 4] \<and>
   removes_only 3 [1, 2, 3, 4] [1, 2, 4::nat]"
  using subscribe_unsubscribe_roundtrip
    [of 3 two_handlers "fst (onMessage 4 (fst (onMessage 3 two_handlers)))"]
  by (simp add: two_handlers_def onMessage_def)

section \<open>The chat window\<close>

lemma handleSendMessage_messages: "messages (handleSendMessage w) = messages w"
  by (simp add: handleSendMessage_def)

lemma message_event_once:
  "messageHandlers (websocketService w) = [OnMessageFn i] \<Longrightarrow>
   messages (browser_message (Some (message_event m)) w) = messages w @ [m]"
  by (simp add: browser_message_def socket_onmessage_def handleMessage_def message_event_def
      forEach_def run_calls_def)

lemma message_event_once_after_mount:
  "messages (browser_message (Some (message_event hello_message)) open_window) = [hello_message]"
  by (simp add: window_defs)

text \<open>
  C2, at the input where the code departs from it. \<open>handleSendMessage\<close> indeed appends
  nothing, and a freshly mounted window appends each \<open>message\<close> event once (the two lemmas
  above). But the cleanup of the effect only disconnects; the handlers registered by
  \<open>connectWebSocket\<close> stay in the service. After the user has selected a second
  conversation the service holds two message handlers of the same window, and one
  \<open>message\<close> event is appended twice.
\<close>

theorem message_event_twice_after_switch:
  "messages (browser_message (Some (message_event hello_message))
      (browser_open (select_conversation ''c2'' open_window))) = [hello_message, hello_message]"
  by (simp add: window_defs)

lemma run_timer_typingUser:
  "typingUser (run_timer t w) = (if callback t = ClearTypingUserFn then JNull else typingUser w)"
  by (cases "callback t") (simp_all add: run_timer_def)

lemma run_timers_typingUser:
  "typingUser (foldl (\<lambda>w' t. run_timer t w') w ts) =
     (if \<exists>t\<in>set ts. callback t = ClearTypingUserFn then JNull else typingUser w)"
  by (induction ts arbitrary: w) (simp_all add: run_timer_typingUser)

lemma typing_handler_sets_timer:
  "truthy (js_get data ''is_typing'') \<Longrightarrow>
   \<exists>t\<in>set (timers (call_handler (OnTypingFn i) data w)).
     callback t = ClearTypingUserFn \<and> due t = clock (call_handler (OnTypingFn i) data w) + 3000"
  by (cases "typingTimeoutRef w") (simp_all add: clearTimeout_def setTimeout_def Let_def)

lemma typing_indicator_expires:
  assumes "truthy (js_get data ''is_typing'')"
  shows "\<not> typing_indicator_shown (advance 3000 (call_handler (OnTypingFn i) data w))"
proof -
  let ?w = "call_handler (OnTypingFn i) data w"
  from typing_handler_sets_timer [OF assms] obtain t where
    "t \<in> set (timers ?w)" "callback t = ClearTypingUserFn" "due t = clock ?w + 3000"
    by blast
  then have "\<exists>t\<in>set (filter (\<lambda>t. due t \<le> clock ?w + 3000) (timers ?w)).
      callback t = ClearTypingUserFn"
    by auto
  then show ?thesis
    by (simp add: typing_indicator_shown_def advance_def Let_def run_timers_typingUser)
qed

lemma typing_indicator_expires_undisturbed:
  "typing_indicator_shown
     (advance 2999 (browser_message (Some (typing_event ''Bob'' True)) open_window)) \<and>
   \<not> typing_indicator_shown
     (advance 3000 (browser_message (Some (typing_event ''Bob'' True)) open_window))"
  by (simp add: window_defs)

lemma advance_without_timers: "timers w = [] \<Longrightarrow> typingUser (advance d w) = typingUser w"
  by (simp add: advance_def Let_def)

lemma stuck_window_state:
  "typingUser stuck_window = JStr ''Bob'' \<and> timers stuck_window = [] \<and> clock stuck_window = 6000"
  by (simp add: stuck_window_def window_defs)

text \<open>
  C4, at the input where the code departs from it. Left alone, the indicator set by a
  typing event is cleared 3000 ms later (the lemmas above). But \<open>handleTyping\<close> keeps its
  own timer in the same \<open>typingTimeoutRef\<close>: a local keystroke within the window cancels
  the pending clear. With a typing event from Bob at 0 ms and a keystroke at 1000 ms, the
  indicator is still shown at 6000 ms, no timer is pending, and however much more time
  passes it stays shown.
\<close>

theorem typing_indicator_stuck_after_keystroke:
  "typing_indicator_shown stuck_window \<and> timers stuck_window = [] \<and>
   (\<forall>d. typing_indicator_shown (advance d stuck_window))"
  using stuck_window_state by (simp add: typing_indicator_shown_def advance_without_timers)

section \<open>Logging out\<close>

text \<open>
  C10. However the logout request settles, fulfilled or rejected, \<open>logout\<close> itself is
  fulfilled (it does not throw to its caller), and afterwards \<open>user\<close> is null and
  \<open>isAuthenticated\<close> is false.
\<close>

theorem logout_clears_session:
  "fst (logout api a) = Fulfilled () \<and>
   user (snd (snd (logout api a))) = JNull \<and>
   \<not> isAuthenticated (snd (snd (logout api a)))"
  by (cases api) (simp_all add: logout_def isAuthenticated_def)

theorem logout_clears_session_witness:
  "isAuthenticated signed_in \<and>
   fst (logout (Rejected (JStr ''Network Error'')) signed_in) = Fulfilled () \<and>
   user (snd (snd (logout (Rejected (JStr ''Network Error'')) signed_in))) = JNull \<and>
   \<not> isAuthenticated (snd (snd (logout (Rejected (JStr ''Network Error'')) signed_in)))"
  using logout_clears_session [of "Rejected (JStr ''Network Error'')" signed_in]
  by (simp add: isAuthenticated_def signed_in_def)

section \<open>The message store\<close>

lemma live_messages_sorted:
  "store_sorted c st \<Longrightarrow> sorted (map order_key (live_messages c now st))"
  by (simp add: store_sorted_def live_messages_def split: option.splits)

lemma append_message_sorted:
  assumes "append_message cfg c r st = Inr (m, st')" and "store_sorted c st"
  shows "store_sorted c st'"
proof -
  have "sorted (map order_key (insort_key order_key x (live_messages c t st)))" for x t
    using live_messages_sorted [OF assms(2)] by (simp add: sorted_insort_key)
  with assms(1) show ?thesis
    by (auto simp: append_message_def store_sorted_def Let_def split: if_splits)
qed

lemma append_all_sorted:
  "append_all cfg c rs st = (ms, st') \<Longrightarrow> store_sorted c st \<Longrightarrow> store_sorted c st'"
proof (induction rs arbitrary: st ms st')
  case Nil
  then show ?case by simp
next
  case (Cons r rs)
  show ?case
  proof (cases "append_message cfg c r st")
    case (Inl e)
    with Cons show ?thesis by simp
  next
    case (Inr p)
    obtain m st1 where p: "p = (m, st1)" by (cases p)
    obtain ms1 st2 where rest: "append_all cfg c rs st1 = (ms1, st2)"
      by (cases "append_all cfg c rs st1")
    from Cons.prems(1) Inr p rest have "st' = st2" by simp
    moreover have "store_sorted c st1"
      using append_message_sorted Inr p Cons.prems(2) by blast
    ultimately show ?thesis using Cons.IH [OF rest] by simp
  qed
qed

lemma append_message_clock:
  assumes "append_message cfg c r st = Inr (m, st')"
  shows "lastAppended st' c = Some (createdAtEpochSeconds m)"
    and "lastAppended st c = Some l \<Longrightarrow> l \<le> createdAtEpochSeconds m"
  using assms by (auto simp: append_message_def Let_def split: if_splits option.splits)

lemma append_all_monotonic:
  "append_all cfg c rs st = (ms, st') \<Longrightarrow>
     sorted (map createdAtEpochSeconds ms) \<and>
     (\<forall>l. lastAppended st c = Some l \<longrightarrow> (\<forall>m\<in>set ms. l \<le> createdAtEpochSeconds m))"
proof (induction rs arbitrary: st ms st')
  case Nil
  then show ?case by simp
next
  case (Cons r rs)
  show ?case
  proof (cases "append_message cfg c r st")
    case (Inl e)
    with Cons show ?thesis by simp
  next
    case (Inr p)
    obtain m st1 where p: "p = (m, st1)" by (cases p)
    obtain ms1 st2 where rest: "append_all cfg c rs st1 = (ms1, st2)"
      by (cases "append_all cfg c rs st1")
    from Cons.prems Inr p rest have ms: "ms = m # ms1" by simp
    have step: "append_message cfg c r st = Inr (m, st1)" using Inr p by simp
    have later: "\<forall>x\<in>set ms1. createdAtEpochSeconds m \<le> createdAtEpochSeconds x"
      using Cons.IH [OF rest] append_message_clock(1) [OF step] by simp
    have "sorted (map createdAtEpochSeconds ms1)" using Cons.IH [OF rest] by simp
    with later have "sorted (map createdAtEpochSeconds ms)" by (simp add: ms)
    moreover have "\<forall>x\<in>set ms. l \<le> createdAtEpochSeconds x" if "lastAppended st c = Some l" for l
      using append_message_clock(2) [OF step that] later by (auto simp: ms)
    ultimately show ?thesis by blast
  qed
qed

lemma live_messages_earlier:
  "unexpired c now st \<Longrightarrow> t \<le> now \<Longrightarrow> live_messages c t st = live_messages c now st"
  by (auto simp: unexpired_def live_messages_def split: option.splits)

lemma append_message_live:
  assumes "append_message cfg c r st = Inr (m, st')" and "unexpired c now st"
    and "wallClock r \<le> now" and "now < wallClock r + retention cfg"
  shows "unexpired c now st'"
    and "length (live_messages c now st') = Suc (length (live_messages c now st))"
  using assms(1,3,4) live_messages_earlier [OF assms(2,3)]
  by (auto simp: append_message_def unexpired_def live_messages_def Let_def split: if_splits)

lemma append_all_live:
  "append_all cfg c rs st = (ms, st') \<Longrightarrow> unexpired c now st \<Longrightarrow>
   \<forall>r\<in>set rs. wallClock r \<le> now \<and> now < wallClock r + retention cfg \<Longrightarrow>
   length (live_messages c now st') = length (live_messages c now st) + length ms"
proof (induction rs arbitrary: st ms st')
  case Nil
  then show ?case by simp
next
  case (Cons r rs)
  show ?case
  proof (cases "append_message cfg c r st")
    case (Inl e)
    with Cons show ?thesis by simp
  next
    case (Inr p)
    obtain m st1 where p: "p = (m, st1)" by (cases p)
    obtain ms1 st2 where rest: "append_all cfg c rs st1 = (ms1, st2)"
      by (cases "append_all cfg c rs st1")
    from Cons.prems(1) Inr p rest have ms: "ms = m # ms1" "st' = st2" by simp_all
    have step: "append_message cfg c r st = Inr (m, st1)" using Inr p by simp
    have r: "wallClock r \<le> now" "now < wallClock r + retention cfg" using Cons.prems(3) by simp_all
    note one = append_message_live [OF step Cons.prems(2) r]
    have "length (live_messages c now st2) = length (live_messages c now st1) + length ms1"
      using Cons.IH [OF rest one(1)] Cons.prems(3) by simp
    then show ?thesis using one(2) ms by simp
  qed
qed

text \<open>
  C5. Take any sequence of appends to one conversation, starting from the empty store;
  some may fail. Read at any time with any limit and offset, \<open>range\<close> returns
  messages in non-decreasing order of \<open>createdAtEpochSeconds\<close>, ties broken by \<open>id\<close>, and
  its total is the number of live messages whatever the limit and offset. The
  timestamps assigned by the successful appends never decrease from one append to the
  next, whatever the wall clocks were. When every append falls within the retention
  window before the read, the total is the number of successful appends.
\<close>

theorem range_sorted_total_monotonic:
  "append_all cfg c rs empty_store = (ms, st) \<Longrightarrow>
     sorted (map order_key (fst (range_messages cfg c limit offset now st))) \<and>
     snd (range_messages cfg c limit offset now st) = length (live_messages c now st) \<and>
     sorted (map createdAtEpochSeconds ms) \<and>
     ((\<forall>r\<in>set rs. wallClock r \<le> now \<and> now < wallClock r + retention cfg) \<longrightarrow>
        snd (range_messages cfg c limit offset now st) = length ms)"
proof -
  assume run: "append_all cfg c rs empty_store = (ms, st)"
  have "store_sorted c empty_store" by (simp add: store_sorted_def empty_store_def)
  then have "sorted (map order_key (live_messages c now st))"
    using append_all_sorted [OF run] live_messages_sorted by blast
  then have "sorted (take (min limit (max_limit cfg)) (drop offset (map order_key (live_messages c now st))))"
    by (simp add: sorted_wrt_take sorted_wrt_drop)
  then have a: "sorted (map order_key (fst (range_messages cfg c limit offset now st)))"
    by (simp add: range_messages_def Let_def take_map drop_map)
  have b: "snd (range_messages cfg c limit offset now st) = length (live_messages c now st)"
    by (simp add: range_messages_def Let_def)
  have c: "sorted (map createdAtEpochSeconds ms)"
    using append_all_monotonic [OF run] by simp
  have "unexpired c now empty_store" "live_messages c now empty_store = []"
    by (simp_all add: unexpired_def live_messages_def empty_store_def)
  then have d: "length (live_messages c now st) = length ms"
    if "\<forall>r\<in>set rs. wallClock r \<le> now \<and> now < wallClock r + retention cfg"
    using append_all_live [OF run _ that] by simp
  from a b c d show ?thesis by simp
qed

theorem range_sorted_total_monotonic_witness:
  "map createdAtEpochSeconds (fst (append_all sample_config 7 sample_appends empty_store)) = [100, 101, 200] \<and>
   map order_key (fst (range_messages sample_config 7 2 1 250
      (snd (append_all sample_config 7 sample_appends empty_store)))) = [(101, (101, 3)), (200, (200, 1))] \<and>
   snd (range_messages sample_config 7 2 1 250
      (snd (append_all sample_config 7 sample_appends empty_store))) = 3"
  using range_sorted_total_monotonic [of sample_config 7 sample_appends
      "fst (append_all sample_config 7 sample_appends empty_store)"
      "snd (append_all sample_config 7 sample_appends empty_store)" 2 1 250]
  by (simp add: sample_config_def sample_appends_def empty_store_def append_message_def
      live_messages_def range_messages_def order_key_def Let_def)


section \<open>The rate limiter\<close>

lemma allow_each_within_window:
  assumes "ceiling_of cfg c = Some n" and "0 < n"
  shows "rw (u, c) = h \<Longrightarrow> length h \<le> n \<Longrightarrow> sorted (h @ ts) \<Longrightarrow>
         \<forall>t\<in>set (h @ ts). t < hd (h @ ts) + window cfg \<Longrightarrow>
         allow_each cfg u c ts rw =
           (replicate (min (n - length h) (length ts)) Allowed @
              map (\<lambda>t. Denied (hd (h @ ts) + window cfg - t)) (drop (n - length h) ts),
            rw((u, c) := h @ take (n - length h) ts))"
proof (induction ts arbitrary: h rw)
  case Nil
  then show ?case by auto
next
  case (Cons t ts)
  have hd_le: "hd (h @ t # ts) \<le> x" if "x \<in> set h" for x
    using Cons.prems(3) that by (cases h) (auto simp: sorted_append)
  have "\<forall>x\<in>set h. t < x + window cfg"
  proof
    fix x assume "x \<in> set h"
    from hd_le [OF this] Cons.prems(4) show "t < x + window cfg" by fastforce
  qed
  then have counted: "filter (\<lambda>x. t < x + window cfg) (rw (u, c)) = h"
    using Cons.prems(1) by (simp add: filter_id_conv)
  show ?case
  proof (cases "length h < n")
    case True
    then obtain k where k: "n - length h = Suc k" by (cases "n - length h") auto
    have step: "allow cfg u c t rw = (Allowed, rw((u, c) := h @ [t]))"
      using assms(1) True counted by (simp add: allow_def Let_def)
    have nk: "n - Suc (length h) = k" using k by simp
    have "allow_each cfg u c ts (rw((u, c) := h @ [t])) =
           (replicate (min (n - length (h @ [t])) (length ts)) Allowed @
              map (\<lambda>x. Denied (hd ((h @ [t]) @ ts) + window cfg - x)) (drop (n - length (h @ [t])) ts),
            (rw((u, c) := h @ [t]))((u, c) := (h @ [t]) @ take (n - length (h @ [t])) ts))"
      using Cons.prems True by (intro Cons.IH) auto
    then have ih: "allow_each cfg u c ts (rw((u, c) := h @ [t])) =
           (replicate (min k (length ts)) Allowed @
              map (\<lambda>x. Denied (hd (h @ t # ts) + window cfg - x)) (drop k ts),
            rw((u, c) := h @ t # take k ts))"
      by (simp add: nk)
    show ?thesis using k by (simp add: step ih) (simp add: fun_upd_def)
  next
    case False
    with Cons.prems(2) have len: "length h = n" by simp
    with assms(2) obtain t0 h' where h: "h = t0 # h'" by (cases h) auto
    have step: "allow cfg u c t rw = (Denied (t0 + window cfg - t), rw)"
      using assms(1) len counted Cons.prems(1) h by (auto simp: allow_def Let_def)
    have "allow_each cfg u c ts rw =
           (replicate (min (n - length h) (length ts)) Allowed @
              map (\<lambda>x. Denied (hd (h @ ts) + window cfg - x)) (drop (n - length h) ts),
            rw((u, c) := h @ take (n - length h) ts))"
      using Cons.prems h by (intro Cons.IH) (auto simp: sorted_append)
    then have ih: "allow_each cfg u c ts rw =
           (map (\<lambda>x. Denied (t0 + window cfg - x)) ts, rw((u, c) := h))"
      using len h by simp
    show ?thesis using len h by (simp add: step ih) (simp add: fun_upd_def)
  qed
qed

lemma nth_allowed_then_denied:
  "i < m + length xs \<Longrightarrow> ((replicate m Allowed @ map (\<lambda>t. Denied (f t)) xs) ! i = Allowed) = (i < m)"
  by (auto simp: nth_append)

text \<open>
  C6. One user calls the history-read class, whose ceiling is 10, at the times
  \<open>t0 # ts\<close> in order, all within one window after \<open>t0\<close>, from an empty rate window. Every
  call gets an answer; the call number \<open>i\<close> (from 0) is allowed exactly when \<open>i < 10\<close>;
  every denial carries a positive wait; and at any time from \<open>t0\<close> plus the window
  length on, when the oldest counted request has aged out, \<open>allow\<close> is true again.
\<close>

theorem history_read_rate_limit:
  assumes "ceiling_of cfg history_read = Some 10" and "0 < window cfg"
    and "rw (u, history_read) = []" and "sorted (t0 # ts)"
    and "\<forall>t\<in>set ts. t < t0 + window cfg"
  shows "length (fst (allow_each cfg u history_read (t0 # ts) rw)) = Suc (length ts) \<and>
     (\<forall>i<Suc (length ts). (fst (allow_each cfg u history_read (t0 # ts) rw) ! i = Allowed) = (i < 10)) \<and>
     (\<forall>d\<in>set (fst (allow_each cfg u history_read (t0 # ts) rw)). \<forall>w. d = Denied w \<longrightarrow> 0 < w) \<and>
     (\<forall>t'. t0 + window cfg \<le> t' \<longrightarrow>
        fst (allow cfg u history_read t' (snd (allow_each cfg u history_read (t0 # ts) rw))) = Allowed)"
proof -
  let ?run = "allow_each cfg u history_read (t0 # ts) rw"
  define m where "m = min 10 (Suc (length ts))"
  define late where "late = drop 10 (t0 # ts)"
  have "\<forall>t\<in>set ([] @ t0 # ts). t < hd ([] @ t0 # ts) + window cfg"
    using assms(2,5) by simp
  with allow_each_within_window [of cfg history_read 10 rw u "[]" "t0 # ts"] assms(1,3,4)
  have run: "?run =
      (replicate m Allowed @ map (\<lambda>t. Denied (t0 + window cfg - t)) late,
       rw((u, history_read) := take 10 (t0 # ts)))"
    by (simp add: m_def late_def)
  have fst_run: "fst ?run = replicate m Allowed @ map (\<lambda>t. Denied (t0 + window cfg - t)) late"
    by (simp only: run fst_conv)
  have snd_run: "snd ?run = rw((u, history_read) := take 10 (t0 # ts))"
    by (simp only: run snd_conv)
  have len: "m + length late = Suc (length ts)" by (simp add: m_def late_def)
  have a: "length (fst ?run) = Suc (length ts)" unfolding fst_run using len by simp
  have b: "(fst ?run ! i = Allowed) = (i < 10)" if "i < Suc (length ts)" for i
  proof -
    have "(fst ?run ! i = Allowed) = (i < m)"
      unfolding fst_run using that len by (simp only: nth_allowed_then_denied)
    also have "\<dots> = (i < 10)" using that unfolding m_def by linarith
    finally show ?thesis .
  qed
  have c: "0 < w" if "d \<in> set (fst ?run)" "d = Denied w" for d w
  proof -
    from that obtain t where "t \<in> set late" "w = t0 + window cfg - t"
      unfolding fst_run by auto
    moreover from this(1) have "t \<in> set (t0 # ts)" unfolding late_def by (rule in_set_dropD)
    ultimately show ?thesis using assms(2,5) by auto
  qed
  have d: "fst (allow cfg u history_read t' (snd ?run)) = Allowed" if "t0 + window cfg \<le> t'" for t'
  proof -
    have "length (filter (\<lambda>x. t' < x + window cfg) (take 9 ts)) \<le> 9"
      by (rule le_trans [OF length_filter_le]) simp
    then show ?thesis
      unfolding snd_run using that assms(1) by (simp add: allow_def Let_def)
  qed
  from a b c d show ?thesis by blast
qed

theorem history_read_rate_limit_witness:
  "fst (allow_each default_limits 42 history_read (0 # rapid_calls) (\<lambda>k. [])) =
     [Allowed, Allowed, Allowed, Allowed, Allowed, Allowed, Allowed, Allowed, Allowed, Allowed,
      Denied 59990] \<and>
   fst (allow default_limits 42 history_read 60000
     (snd (allow_each default_limits 42 history_read (0 # rapid_calls) (\<lambda>k. [])))) = Allowed"
  using history_read_rate_limit [of default_limits "\<lambda>k. []" 42 0 rapid_calls]
  by (simp add: default_limits_def rapid_calls_def allow_def Let_def)

end
